theory Spec2Isabelle
  imports Main "HOL-Library.Word"
begin

section \<open>JavaScript strings\<close>

text \<open>
  A JavaScript string is a sequence of UTF-16 code units. Literals of the source that
  are plain ASCII are written \<open>lit ''...''\<close>; the warning glyph of the source
  (U+26A0 followed by the variation selector U+FE0F) is written out as code units.
\<close>

type_synonym jsstring = "16 word list"

definition lit :: "string \<Rightarrow> jsstring" where
  "lit s = map of_char s"

definition warnGlyph :: jsstring where
  "warnGlyph = [0x26A0, 0xFE0F]"

text \<open>
  \<open>String.prototype.trim\<close> removes the code units that ECMAScript calls WhiteSpace or
  LineTerminator from both ends: TAB, LF, VT, FF, CR, SP, NBSP, U+1680, U+2000 to
  U+200A, U+2028, U+2029, U+202F, U+205F, U+3000 and U+FEFF.
\<close>

definition isWhiteSpace :: "16 word \<Rightarrow> bool" where
  "isWhiteSpace c =
     (c = 0x09 \<or> c = 0x0A \<or> c = 0x0B \<or> c = 0x0C \<or> c = 0x0D \<or> c = 0x20 \<or> c = 0xA0
      \<or> c = 0x1680 \<or> (0x2000 \<le> c \<and> c \<le> 0x200A) \<or> c = 0x2028 \<or> c = 0x2029
      \<or> c = 0x202F \<or> c = 0x205F \<or> c = 0x3000 \<or> c = 0xFEFF)"

definition trimStart :: "jsstring \<Rightarrow> jsstring" where
  "trimStart s = dropWhile isWhiteSpace s"

definition trimEnd :: "jsstring \<Rightarrow> jsstring" where
  "trimEnd s = rev (dropWhile isWhiteSpace (rev s))"

definition trim :: "jsstring \<Rightarrow> jsstring" where
  "trim s = trimEnd (trimStart s)"

text \<open>
  \<open>s.startsWith(p)\<close> and \<open>s.includes(p)\<close>, the receiver first (\<open>includes\<close> is
  a reserved word of Isabelle, hence the suffix).
\<close>

fun startsWith :: "'a list \<Rightarrow> 'a list \<Rightarrow> bool" where
  "startsWith s [] = True"
| "startsWith [] (p # ps) = False"
| "startsWith (c # cs) (p # ps) = (c = p \<and> startsWith cs ps)"

fun includes_str :: "'a list \<Rightarrow> 'a list \<Rightarrow> bool" where
  "includes_str [] p = startsWith [] p"
| "includes_str (c # cs) p = (startsWith (c # cs) p \<or> includes_str cs p)"

text \<open>
  \<open>String.prototype.toLowerCase\<close> maps the cased characters of all of Unicode, some of
  them to ASCII letters (U+212A to \<open>k\<close>) or to two code units (U+0130). It belongs to the
  runtime and is a parameter of the model: every function that calls it takes
  \<open>toLowerCase\<close> as its first argument, and the theorems hold for every such function.
\<close>

type_synonym lowering = "jsstring \<Rightarrow> jsstring"

text \<open>
  For the examples: \<open>lowerLatin1\<close> is what \<open>toLowerCase\<close> returns on a string whose code
  units are all below U+0100, where it maps A to Z and the capitals U+00C0 to U+00DE
  except the multiplication sign U+00D7. The examples apply it to ASCII strings only.
\<close>

definition lowerUnit :: "16 word \<Rightarrow> 16 word" where
  "lowerUnit c =
     (if (0x41 \<le> c \<and> c \<le> 0x5A) \<or> (0xC0 \<le> c \<and> c \<le> 0xDE \<and> c \<noteq> 0xD7)
      then c + 0x20 else c)"

definition lowerLatin1 :: lowering where
  "lowerLatin1 s = map lowerUnit s"

text \<open>
  Truthiness of a value of type \<open>string | null | undefined\<close>: the empty string, null
  and undefined are falsy.
\<close>

fun truthy :: "jsstring option \<Rightarrow> bool" where
  "truthy None = False"
| "truthy (Some s) = (s \<noteq> [])"

text \<open>\<open>a || b\<close> on such values, with a string as the right operand.\<close>

definition orElse :: "jsstring option \<Rightarrow> jsstring \<Rightarrow> jsstring" where
  "orElse a b = (if truthy a then the a else b)"

section \<open>The executor: class \<open>GitExecutor\<close>\<close>

text \<open>A thrown \<open>Error\<close>, with its message.\<close>

datatype js_error = Error jsstring

text \<open>
  The \<open>code\<close> property of a rejected \<open>exec\<close>: a number (the exit status) or a string
  (such as ENOENT); it is absent when the child was killed.
\<close>

datatype js_code = CodeNum int | CodeStr jsstring

record ExecutionResult =
  success :: bool
  output' :: "jsstring option"
  error :: "jsstring option"
  executed :: bool
  warnings :: "jsstring list option"
  return_code :: "js_code option"

text \<open>
  The field \<open>output\<close> is written \<open>output'\<close>, since \<open>output\<close> is a reserved word of
  Isabelle.
\<close>

text \<open>The error object \<open>execAsync\<close> rejects with; every property may be missing.\<close>

record exec_error =
  err_stdout :: "jsstring option"
  err_stderr :: "jsstring option"
  err_message :: "jsstring option"
  err_code :: "js_code option"

text \<open>
  \<open>execAsync(command, {cwd, timeout: 30000})\<close> is the environment: given the command
  and the working directory it rejects (\<open>Inl\<close>: a non-zero exit, the timeout, a spawn
  failure) or resolves with \<open>(stdout, stderr)\<close>.
\<close>

type_synonym exec_env = "jsstring \<Rightarrow> jsstring \<Rightarrow> exec_error + jsstring \<times> jsstring"

definition destructiveCommands :: "(jsstring \<times> jsstring) list" where
  "destructiveCommands =
     [(lit ''reset --hard'', lit ''This will discard all uncommitted changes''),
      (lit ''clean -f'', lit ''This will delete untracked files permanently''),
      (lit ''push --force'', lit ''This will overwrite remote history''),
      (lit ''rebase'', lit ''This will rewrite commit history''),
      (lit ''cherry-pick'', lit ''This may create conflicts''),
      (lit ''merge --no-ff'', lit ''This will create a merge commit'')]"

definition dangerousChars :: "jsstring list" where
  "dangerousChars =
     [lit '';'', lit ''&&'', lit ''||'', lit ''|'', lit ''`'', lit ''$'', lit ''>'', lit ''<'']"

text \<open>The loop of \<open>cleanCommand\<close>: the first dangerous string the command includes.\<close>

fun scanDangerous :: "jsstring \<Rightarrow> jsstring list \<Rightarrow> jsstring option" where
  "scanDangerous command [] = None"
| "scanDangerous command (ch # rest) =
     (if includes_str command ch then Some ch else scanDangerous command rest)"

definition cleanCommand :: "jsstring \<Rightarrow> js_error + jsstring" where
  "cleanCommand command0 =
     (let command1 = trim command0;
          command = (if \<not> startsWith command1 (lit ''git'')
                     then lit ''git '' @ command1 else command1)
      in case scanDangerous command dangerousChars of
           Some ch \<Rightarrow> Inl (Error (lit ''Potentially dangerous character detected: '' @ ch))
         | None \<Rightarrow> Inr command)"

text \<open>
  The loop of \<open>checkDestructiveOperations\<close> over \<open>Object.entries\<close> of the table (the
  keys in insertion order), pushing onto \<open>warnings\<close> (here \<open>ws\<close>).
\<close>

fun pushWarnings ::
  "lowering \<Rightarrow> jsstring \<Rightarrow> (jsstring \<times> jsstring) list \<Rightarrow> jsstring list \<Rightarrow> jsstring list" where
  "pushWarnings toLowerCase command [] ws = ws"
| "pushWarnings toLowerCase command ((destructiveCmd, w) # rest) ws =
     pushWarnings toLowerCase command rest
       (if includes_str (toLowerCase command) destructiveCmd
        then ws @ [warnGlyph @ lit '' '' @ w] else ws)"

definition checkDestructiveOperations :: "lowering \<Rightarrow> jsstring \<Rightarrow> jsstring list" where
  "checkDestructiveOperations toLowerCase command =
     pushWarnings toLowerCase command destructiveCommands []"

definition isDestructiveCommand :: "lowering \<Rightarrow> jsstring \<Rightarrow> bool" where
  "isDestructiveCommand toLowerCase command =
     list_ex (\<lambda>destructiveCmd. includes_str (toLowerCase command) destructiveCmd)
       (map fst destructiveCommands)"

text \<open>\<open>error.code || 1\<close>: a missing code, the number 0 and the empty string are falsy.\<close>

fun codeOrOne :: "js_code option \<Rightarrow> js_code" where
  "codeOrOne None = CodeNum 1"
| "codeOrOne (Some (CodeNum n)) = (if n = 0 then CodeNum 1 else CodeNum n)"
| "codeOrOne (Some (CodeStr s)) = (if s = [] then CodeNum 1 else CodeStr s)"

text \<open>
  \<open>execute\<close> returns the result or the thrown error (\<open>Inl\<close>), and the list of the
  subprocesses it spawned, each as (command, working directory).
\<close>

definition execute ::
  "lowering \<Rightarrow> exec_env \<Rightarrow> jsstring \<Rightarrow> jsstring \<Rightarrow> bool \<Rightarrow> bool
     \<Rightarrow> (js_error + ExecutionResult) \<times> (jsstring \<times> jsstring) list" where
  "execute toLowerCase execAsync repoPath command dryRun autoConfirm =
     (if command = [] \<or> \<not> startsWith (trim command) (lit ''git'')
      then (Inr \<lparr>success = False, output' = Some [], error = Some (lit ''Invalid Git command''),
                 executed = False, warnings = None, return_code = None\<rparr>, [])
      else case cleanCommand command of
        Inl e \<Rightarrow> (Inl e, [])
      | Inr cleanCmd \<Rightarrow>
         (let ws = checkDestructiveOperations toLowerCase cleanCmd in
          if dryRun
          then (Inr \<lparr>success = True, output' = Some (lit ''Would execute: '' @ cleanCmd),
                     error = Some [], executed = False, warnings = Some ws,
                     return_code = None\<rparr>, [])
          else case execAsync cleanCmd repoPath of
            Inr (stdout, stderr) \<Rightarrow>
              (Inr \<lparr>success = True, output' = Some stdout,
                    error = Some (orElse (Some stderr) []), executed = True,
                    warnings = Some ws, return_code = Some (CodeNum 0)\<rparr>,
               [(cleanCmd, repoPath)])
          | Inl err \<Rightarrow>
              (Inr \<lparr>success = False, output' = Some (orElse (err_stdout err) []),
                    error = Some (orElse (err_stderr err)
                              (orElse (err_message err) (lit ''Command execution failed''))),
                    executed = False, warnings = Some ws,
                    return_code = Some (codeOrOne (err_code err))\<rparr>,
               [(cleanCmd, repoPath)])))"

definition previewCommand ::
  "lowering \<Rightarrow> exec_env \<Rightarrow> jsstring \<Rightarrow> jsstring
     \<Rightarrow> (js_error + ExecutionResult) \<times> (jsstring \<times> jsstring) list" where
  "previewCommand toLowerCase execAsync repoPath command =
     execute toLowerCase execAsync repoPath command True False"

text \<open>An environment for the examples: every command succeeds with empty output.\<close>

definition quietExec :: exec_env where
  "quietExec command cwd = Inr ([], [])"

section \<open>The context analyzer: class \<open>ContextAnalyzer\<close>\<close>

text \<open>
  The host of the analyzer. \<open>execSync(command, {cwd})\<close> returns the standard output of
  the command (\<open>Inr\<close>) or throws (\<open>Inl\<close>, here the text that \<open>${error}\<close> prints), as on a
  non-zero exit status; a snapshot runs each command once, so a function of the command
  says all that the snapshot sees of the repository. \<open>toISOString\<close> is \<open>new Date(s).toISOString()\<close>, which throws
  (\<open>None\<close>) on a text that is no date.
\<close>

record host =
  execSync :: "jsstring \<Rightarrow> jsstring \<Rightarrow> jsstring + jsstring"
  toISOString :: "jsstring \<Rightarrow> jsstring option"

record remote_info =
  has_remote :: bool
  ahead :: "nat option"
  behind :: "nat option"
  up_to_date :: "bool option"

record commit_info =
  sha :: jsstring
  message :: jsstring
  author :: jsstring
  date :: jsstring

text \<open>
  The object \<open>analyzeContext\<close> returns, which is the \<open>ContextInfo\<close> the engine reads:
  every property may be missing. The property \<open>error\<close> is written \<open>error'\<close> here, the
  name being taken by \<open>ExecutionResult\<close>. \<open>last_commit\<close> is \<open>Some None\<close> for the empty
  object \<open>{}\<close>.
\<close>

record ContextInfo =
  branch :: "jsstring option"
  is_dirty :: "bool option"
  staged_files :: "int option"
  unstaged_files :: "int option"
  untracked_files :: "int option"
  is_detached :: "bool option"
  remote_status :: "remote_info option"
  last_commit :: "commit_info option option"
  stash_count :: "int option"
  error' :: "jsstring option"

definition errorOnly :: "jsstring \<Rightarrow> ContextInfo" where
  "errorOnly e =
     \<lparr>branch = None, is_dirty = None, staged_files = None, unstaged_files = None,
      untracked_files = None, is_detached = None, remote_status = None,
      last_commit = None, stash_count = None, error' = Some e\<rparr>"

text \<open>\<open>s.split(sep)\<close> for a separator of one code unit: the empty string gives one empty part.\<close>

fun split_on :: "'a \<Rightarrow> 'a list \<Rightarrow> 'a list list" where
  "split_on sep [] = [[]]"
| "split_on sep (c # cs) =
     (if c = sep then [] # split_on sep cs
      else case split_on sep cs of
             [] \<Rightarrow> [[c]]
           | part # parts \<Rightarrow> (c # part) # parts)"

definition LF :: "16 word" where
  "LF = 0x0A"

text \<open>
  The expression \<open>out.toString().trim().split('\n').length - 1\<close>, which the source
  writes out for each of the four counts.
\<close>

definition lineCount :: "jsstring \<Rightarrow> int" where
  "lineCount out = int (length (split_on LF (trim out))) - 1"

definition isGitRepo :: "host \<Rightarrow> jsstring \<Rightarrow> bool" where
  "isGitRepo h repoPath =
     (case execSync h (lit ''git status'') repoPath of Inl e \<Rightarrow> False | Inr out \<Rightarrow> True)"

definition getCurrentBranch :: "host \<Rightarrow> jsstring \<Rightarrow> jsstring" where
  "getCurrentBranch h repoPath =
     (case execSync h (lit ''git rev-parse --abbrev-ref HEAD'') repoPath of
        Inr out \<Rightarrow> orElse (Some (trim out)) (lit ''unknown'')
      | Inl e \<Rightarrow> lit ''unknown'')"

text \<open>
  The two patterns of \<open>getRemoteStatus\<close> have the shape \<open>/pre(\d+)post/\<close>: the first
  position where \<open>pre\<close>, one or more decimal digits and \<open>post\<close> follow each other; the
  digits are the capture. \<open>parseInt\<close> of the digits is their value; JavaScript returns
  the nearest double, which is that value up to 15 digits, and the model is exact beyond
  that too. No theorem below turns on the value.
\<close>

definition isDigit :: "16 word \<Rightarrow> bool" where
  "isDigit c = (0x30 \<le> c \<and> c \<le> 0x39)"

definition digitsAt :: "jsstring \<Rightarrow> jsstring \<Rightarrow> jsstring \<Rightarrow> jsstring option" where
  "digitsAt pre post s =
     (if startsWith s pre
      then (let r = drop (length pre) s; ds = takeWhile isDigit r
            in if ds \<noteq> [] \<and> startsWith (dropWhile isDigit r) post then Some ds else None)
      else None)"

fun matchDigits :: "jsstring \<Rightarrow> jsstring \<Rightarrow> jsstring \<Rightarrow> jsstring option" where
  "matchDigits pre post [] = digitsAt pre post []"
| "matchDigits pre post (c # cs) =
     (case digitsAt pre post (c # cs) of
        Some ds \<Rightarrow> Some ds
      | None \<Rightarrow> matchDigits pre post cs)"

definition parseInt :: "jsstring \<Rightarrow> nat" where
  "parseInt ds = foldl (\<lambda>n d. 10 * n + (unat d - 48)) 0 ds"

definition getRemoteStatus :: "host \<Rightarrow> jsstring \<Rightarrow> remote_info" where
  "getRemoteStatus h repoPath =
     (case execSync h (lit ''git remote show origin'') repoPath of
        Inr origin \<Rightarrow>
          (let aheadMatch = matchDigits (lit ''local out of date by '') (lit '' commit'') origin;
               behindMatch = matchDigits (lit ''branches out of date by '') (lit '' commit'') origin
           in \<lparr>has_remote = True,
               ahead = Some (case aheadMatch of Some ds \<Rightarrow> parseInt ds | None \<Rightarrow> 0),
               behind = Some (case behindMatch of Some ds \<Rightarrow> parseInt ds | None \<Rightarrow> 0),
               up_to_date = Some (aheadMatch = None \<and> behindMatch = None)\<rparr>)
      | Inl e \<Rightarrow> \<lparr>has_remote = False, ahead = None, behind = None, up_to_date = None\<rparr>)"

text \<open>
  \<open>getLastCommitInfo\<close>: the output is split at the bar (U+007C). With fewer than four
  parts \<open>commit[i].trim()\<close> throws on \<open>undefined\<close>, and an invalid date throws too; the
  handler returns the empty object (\<open>None\<close>). The command line holds two double quotes
  (U+0022).
\<close>

definition logCommand :: jsstring where
  "logCommand = lit ''git log -1 --pretty=format:'' @ [0x22] @ lit ''%h | %s | %an | %ci'' @ [0x22]"

definition getLastCommitInfo :: "host \<Rightarrow> jsstring \<Rightarrow> commit_info option" where
  "getLastCommitInfo h repoPath =
     (case execSync h logCommand repoPath of
        Inr out \<Rightarrow>
          (case split_on 0x7C out of
             c0 # c1 # c2 # c3 # rest \<Rightarrow>
               (case toISOString h (trim c3) of
                  Some isoDate \<Rightarrow>
                    Some \<lparr>sha = trim c0, message = trim c1, author = trim c2, date = isoDate\<rparr>
                | None \<Rightarrow> None)
           | _ \<Rightarrow> None)
      | Inl e \<Rightarrow> None)"

text \<open>
  The body of the \<open>try\<close> of \<open>analyzeContext\<close>, statement by statement: a throwing
  \<open>execSync\<close> leaves the body at once (\<open>Inl\<close>); the three helper calls return a value
  always, having handlers of their own.
\<close>

definition andThen :: "'e + 'a \<Rightarrow> ('a \<Rightarrow> 'e + 'b) \<Rightarrow> 'e + 'b" where
  "andThen r f = (case r of Inl e \<Rightarrow> Inl e | Inr x \<Rightarrow> f x)"

definition analyzeBody :: "host \<Rightarrow> jsstring \<Rightarrow> jsstring + ContextInfo" where
  "analyzeBody h repoPath =
     (let br = getCurrentBranch h repoPath in
      andThen (execSync h (lit ''git status --porcelain'') repoPath) (\<lambda>porcelain.
      andThen (execSync h (lit ''git diff --cached --name-only'') repoPath) (\<lambda>staged.
      andThen (execSync h (lit ''git diff --name-only'') repoPath) (\<lambda>unstaged.
      andThen (execSync h (lit ''git ls-files --others --exclude-standard'') repoPath) (\<lambda>untracked.
      andThen (execSync h (lit ''git symbolic-ref -q HEAD'') repoPath) (\<lambda>symref.
      (let remoteStatus = getRemoteStatus h repoPath;
           lastCommit = getLastCommitInfo h repoPath in
      andThen (execSync h (lit ''git stash list'') repoPath) (\<lambda>stashes.
      Inr \<lparr>branch = Some br,
           is_dirty = Some (trim porcelain \<noteq> []),
           staged_files = Some (lineCount staged),
           unstaged_files = Some (lineCount unstaged),
           untracked_files = Some (lineCount untracked),
           is_detached = Some (trim symref \<noteq> []),
           remote_status = Some remoteStatus,
           last_commit = Some lastCommit,
           stash_count = Some (lineCount stashes),
           error' = None\<rparr>))))))))"

definition analyzeContext :: "host \<Rightarrow> jsstring \<Rightarrow> ContextInfo" where
  "analyzeContext h repoPath =
     (if \<not> isGitRepo h repoPath then errorOnly (lit ''Not a Git repository'')
      else case analyzeBody h repoPath of
             Inr info \<Rightarrow> info
           | Inl e \<Rightarrow> errorOnly (lit ''Failed to analyze context: '' @ e))"


text \<open>
  The number of non-empty lines of an output, in the words of the specification; the
  source has no such function.
\<close>

definition nonEmptyLines :: "jsstring \<Rightarrow> nat" where
  "nonEmptyLines out = length (filter (\<lambda>l. l \<noteq> []) (split_on LF out))"


definition stagedHost :: host where
  "stagedHost =
     \<lparr>execSync = (\<lambda>command cwd.
        if command = lit ''git diff --cached --name-only''
        then Inr (lit ''a.txt'' @ [LF])
        else if command = lit ''git rev-parse --abbrev-ref HEAD''
        then Inr (lit ''main'' @ [LF])
        else if command = lit ''git remote show origin''
        then Inl (lit ''Error: Command failed: git remote show origin'')
        else Inr []),
      toISOString = (\<lambda>s. None)\<rparr>"

section \<open>The engine: class \<open>AIEngine\<close>\<close>

record AIResponse =
  command :: "jsstring option"
  explanation :: jsstring
  warning :: "jsstring option"

text \<open>
  \<open>parseAIResponse\<close> returns what \<open>JSON.parse\<close> gave, unchecked, or the triple that the
  line scan extracted. \<open>JSON.parse\<close> is a parameter of the model (\<open>jsonParse\<close>): \<open>None\<close>
  when it throws, the parsed value of any type \<open>'j\<close> otherwise.
\<close>

datatype 'j parsed = Json 'j | Extracted AIResponse

definition quoted :: "jsstring \<Rightarrow> jsstring" where
  "quoted s = [0x22] @ s @ [0x22]"

definition openBrace :: "16 word" where
  "openBrace = 0x7B"

definition closeBrace :: "16 word" where
  "closeBrace = 0x7D"

definition backtick :: "16 word" where
  "backtick = 0x60"

text \<open>
  The pattern \<open>/\{[^}]*"command"[^}]*\}/s\<close>. A match starts at an opening brace and ends
  at the first closing brace after it, and the text between them includes
  \<open>"command"\<close>; \<open>match\<close> returns the leftmost one.
\<close>

definition jsonMatchAt :: "jsstring \<Rightarrow> jsstring option" where
  "jsonMatchAt s =
     (case s of
        [] \<Rightarrow> None
      | c # rest \<Rightarrow>
          if c = openBrace
             \<and> includes_str (takeWhile (\<lambda>x. x \<noteq> closeBrace) rest) (quoted (lit ''command''))
             \<and> dropWhile (\<lambda>x. x \<noteq> closeBrace) rest \<noteq> []
          then Some (c # takeWhile (\<lambda>x. x \<noteq> closeBrace) rest @ [closeBrace])
          else None)"

fun jsonMatch :: "jsstring \<Rightarrow> jsstring option" where
  "jsonMatch [] = None"
| "jsonMatch (c # cs) =
     (case jsonMatchAt (c # cs) of
        Some m \<Rightarrow> Some m
      | None \<Rightarrow> jsonMatch cs)"

text \<open>
  The pattern \<open>/`(git [^`]+)`/\<close>: a backtick, \<open>git\<close> and a blank, one or more code units
  that are no backtick, and a backtick; the capture is what stands between the
  backticks.
\<close>

definition gitMatchAt :: "jsstring \<Rightarrow> jsstring option" where
  "gitMatchAt s =
     (if startsWith s (backtick # lit ''git '')
      then (let r = drop 5 s; body = takeWhile (\<lambda>x. x \<noteq> backtick) r
            in if body \<noteq> [] \<and> dropWhile (\<lambda>x. x \<noteq> backtick) r \<noteq> []
               then Some (lit ''git '' @ body) else None)
      else None)"

fun gitMatch :: "jsstring \<Rightarrow> jsstring option" where
  "gitMatch [] = None"
| "gitMatch (c # cs) =
     (case gitMatchAt (c # cs) of
        Some g \<Rightarrow> Some g
      | None \<Rightarrow> gitMatch cs)"

text \<open>
  The first condition of the warning chain: the line starts with \<open>Warning:\<close> or
  \<open>Note:\<close>, or includes the warning glyph.
\<close>

definition isWarningLine :: "jsstring \<Rightarrow> bool" where
  "isWarningLine trimmedLine =
     (startsWith trimmedLine (lit ''Warning:'') \<or> startsWith trimmedLine (lit ''Note:'')
      \<or> includes_str trimmedLine warnGlyph)"

text \<open>
  One turn of the loop over the lines. The state is the three variables \<open>command\<close>,
  \<open>explanation\<close> and \<open>warning\<close>; \<open>cmd\<close> is \<open>command\<close> after the first \<open>if\<close> of the turn.
\<close>

definition scanLine :: "lowering \<Rightarrow> AIResponse \<Rightarrow> jsstring \<Rightarrow> AIResponse" where
  "scanLine toLowerCase st line =
     (let trimmedLine = trim line;
          cmd = (if \<not> truthy (command st)
                 then (if startsWith trimmedLine (lit ''git '') then Some trimmedLine
                       else if includes_str trimmedLine (backtick # lit ''git '')
                       then (case gitMatch trimmedLine of
                               Some g \<Rightarrow> Some g
                             | None \<Rightarrow> command st)
                       else command st)
                 else command st)
      in if isWarningLine trimmedLine
         then \<lparr>command = cmd, explanation = explanation st, warning = Some trimmedLine\<rparr>
         else if includes_str (toLowerCase trimmedLine) (lit ''warning'') \<and> \<not> truthy (warning st)
         then \<lparr>command = cmd, explanation = explanation st, warning = Some trimmedLine\<rparr>
         else if trimmedLine \<noteq> [] \<and> \<not> truthy cmd
                 \<and> \<not> startsWith trimmedLine (lit ''```'')
                 \<and> \<not> startsWith trimmedLine (lit ''`'')
         then (if \<not> includes_str trimmedLine (lit ''git '')
               then \<lparr>command = cmd, explanation = explanation st @ trimmedLine @ lit '' '',
                     warning = warning st\<rparr>
               else \<lparr>command = cmd, explanation = explanation st, warning = warning st\<rparr>)
         else \<lparr>command = cmd, explanation = explanation st, warning = warning st\<rparr>)"

definition scanLines :: "lowering \<Rightarrow> jsstring list \<Rightarrow> AIResponse" where
  "scanLines toLowerCase ls =
     foldl (scanLine toLowerCase) \<lparr>command = None, explanation = [], warning = None\<rparr> ls"

text \<open>\<open>s.replace(/^`|`$/g, '')\<close>: a backtick at the start and one at the end are removed.\<close>

definition stripTicks :: "jsstring \<Rightarrow> jsstring" where
  "stripTicks s =
     (let s1 = (if startsWith s [backtick] then drop 1 s else s)
      in if s1 \<noteq> [] \<and> last s1 = backtick then butlast s1 else s1)"

text \<open>The text parsing fallback: the loop, and the code after it.\<close>

definition textFallback :: "lowering \<Rightarrow> jsstring \<Rightarrow> AIResponse" where
  "textFallback toLowerCase response =
     (let st = scanLines toLowerCase (split_on LF response);
          cmd = (if truthy (command st)
                 then (let c = stripTicks (trim (the (command st)))
                       in Some (if \<not> startsWith c (lit ''git '') then lit ''git '' @ c else c))
                 else command st)
      in \<lparr>command = cmd, explanation = trim (explanation st), warning = warning st\<rparr>)"

text \<open>
  The body of the outer \<open>try\<close> of \<open>parseAIResponse\<close>. The two inner handlers catch what
  \<open>JSON.parse\<close> throws, and no other step throws on a string (\<open>match\<close>, \<open>trim\<close>,
  \<open>startsWith\<close>, \<open>split\<close>, \<open>includes\<close>, \<open>toLowerCase\<close> and \<open>replace\<close> are total), so the
  body has no \<open>Inl\<close> branch to take.
\<close>

definition parseBody ::
  "lowering \<Rightarrow> (jsstring \<Rightarrow> 'j option) \<Rightarrow> jsstring \<Rightarrow> js_error + 'j parsed" where
  "parseBody toLowerCase jsonParse response =
     (case (case jsonMatch response of
              Some m \<Rightarrow> jsonParse m
            | None \<Rightarrow> None) of
        Some v \<Rightarrow> Inr (Json v)
      | None \<Rightarrow>
          (case (if startsWith (trim response) [openBrace]
                 then jsonParse (trim response) else None) of
             Some v \<Rightarrow> Inr (Json v)
           | None \<Rightarrow> Inr (Extracted (textFallback toLowerCase response))))"

definition parseAIResponse ::
  "lowering \<Rightarrow> (jsstring \<Rightarrow> 'j option) \<Rightarrow> jsstring \<Rightarrow> 'j parsed" where
  "parseAIResponse toLowerCase jsonParse response =
     (case parseBody toLowerCase jsonParse response of
        Inr r \<Rightarrow> r
      | Inl e \<Rightarrow>
          Extracted \<lparr>command = None, explanation = response,
                     warning = Some (lit ''Failed to parse AI response'')\<rparr>)"

text \<open>A \<open>JSON.parse\<close> for the examples, whose texts hold no brace: it is never called.\<close>

definition rejectJson :: "jsstring \<Rightarrow> unit option" where
  "rejectJson s = None"

text \<open>
  The prompt. \<open>showInt\<close> is the decimal text of an integer, as a template literal prints
  a whole number below \<open>1e21\<close> (from there on JavaScript prints an exponent, which the
  model does not; no theorem below turns on the prompt); \<open>stringifyRemote\<close> is \<open>JSON.stringify\<close> of the remote status that
  \<open>getRemoteStatus\<close> builds, and of \<open>{}\<close> when the property is missing. The unused
  \<open>contextStr\<close> of \<open>buildPrompt\<close> (the result of \<open>formatContext\<close>) is left out.
\<close>

fun showNat :: "nat \<Rightarrow> jsstring" where
  "showNat n =
     (if n < 10 then [of_nat (48 + n)]
      else showNat (n div 10) @ [of_nat (48 + n mod 10)])"

definition showInt :: "int \<Rightarrow> jsstring" where
  "showInt i = (if i < 0 then lit ''-'' @ showNat (nat (- i)) else showNat (nat i))"

definition showBool :: "bool \<Rightarrow> jsstring" where
  "showBool b = (if b then lit ''true'' else lit ''false'')"

definition stringifyRemote :: "remote_info option \<Rightarrow> jsstring" where
  "stringifyRemote r =
     (case r of
        None \<Rightarrow> lit ''{}''
      | Some ri \<Rightarrow>
          lit ''{'' @ quoted (lit ''has_remote'') @ lit '':'' @ showBool (has_remote ri)
          @ (case ahead ri of
               None \<Rightarrow> []
             | Some n \<Rightarrow> lit '','' @ quoted (lit ''ahead'') @ lit '':'' @ showNat n)
          @ (case behind ri of
               None \<Rightarrow> []
             | Some n \<Rightarrow> lit '','' @ quoted (lit ''behind'') @ lit '':'' @ showNat n)
          @ (case up_to_date ri of
               None \<Rightarrow> []
             | Some b \<Rightarrow> lit '','' @ quoted (lit ''up_to_date'') @ lit '':'' @ showBool b)
          @ lit ''}'')"

definition buildPrompt :: "jsstring \<Rightarrow> ContextInfo \<Rightarrow> jsstring" where
  "buildPrompt userInput context =
     lit ''Based on the current Git repository state:'' @ [LF]
     @ lit ''- Branch: '' @ orElse (branch context) (lit ''unknown'') @ [LF]
     @ lit ''- Dirty: '' @ showBool (is_dirty context = Some True) @ [LF]
     @ lit ''- Staged files: ''
     @ showInt (case staged_files context of None \<Rightarrow> 0 | Some n \<Rightarrow> n) @ [LF]
     @ lit ''- Unstaged files: ''
     @ showInt (case unstaged_files context of None \<Rightarrow> 0 | Some n \<Rightarrow> n) @ [LF]
     @ lit ''- Detached HEAD: '' @ showBool (is_detached context = Some True) @ [LF]
     @ lit ''- Remote status: '' @ stringifyRemote (remote_status context) @ [LF]
     @ [LF]
     @ lit ''User request: '' @ userInput @ [LF]
     @ [LF]
     @ lit ''Provide the most appropriate Git command considering the current context. ''
     @ lit ''Respond with a JSON object containing 'command', 'explanation', and 'warning' fields.''"

record AIEngine =
  geminiApiKey :: "jsstring option"
  groqApiKey :: "jsstring option"

record model_info =
  name :: jsstring
  provider :: jsstring
  model :: jsstring

definition availableModels :: "(jsstring \<times> model_info) list" where
  "availableModels =
     [(lit ''1'', \<lparr>name = lit ''Gemini 2.0 Flash'', provider = lit ''gemini'',
                   model = lit ''gemini-2.0-flash''\<rparr>),
      (lit ''2'', \<lparr>name = lit ''Llama 3.1 8B Instant'', provider = lit ''groq'',
                   model = lit ''llama-3.1-8b-instant''\<rparr>),
      (lit ''3'', \<lparr>name = lit ''Llama 3.3 70B Versatile'', provider = lit ''groq'',
                   model = lit ''llama-3.3-70b-versatile''\<rparr>),
      (lit ''4'', \<lparr>name = lit ''DeepSeek R1 Distill Llama 70B'', provider = lit ''groq'',
                   model = lit ''deepseek-r1-distill-llama-70b''\<rparr>)]"

text \<open>
  \<open>this.availableModels[modelChoice] || this.availableModels["1"]\<close>. The table is an
  object literal, so a choice that names a property of \<open>Object.prototype\<close> reads that
  property: a function or an object, which is truthy and has no \<open>provider\<close>. The model
  returns \<open>None\<close> for such a value; every other choice outside the table gives the
  entry of \<open>"1"\<close>.
\<close>

definition objectPrototypeProps :: "jsstring list" where
  "objectPrototypeProps =
     [lit ''constructor'', lit ''__defineGetter__'', lit ''__defineSetter__'',
      lit ''hasOwnProperty'', lit ''__lookupGetter__'', lit ''__lookupSetter__'',
      lit ''isPrototypeOf'', lit ''propertyIsEnumerable'', lit ''toString'',
      lit ''valueOf'', lit ''__proto__'', lit ''toLocaleString'']"

definition modelInfoOf :: "jsstring \<Rightarrow> model_info option" where
  "modelInfoOf modelChoice =
     (case map_of availableModels modelChoice of
        Some mi \<Rightarrow> Some mi
      | None \<Rightarrow>
          if modelChoice \<in> set objectPrototypeProps then None
          else map_of availableModels (lit ''1''))"

text \<open>
  The network. A call carries what the adapter sends: the model, the API key and the
  prompt. \<open>post\<close> is \<open>axios.post\<close> followed by the extraction of the text from the
  reply: \<open>Inr\<close> the text (the empty string when the reply has none), \<open>Inl\<close> what
  \<open>${error}\<close> prints when either throws.
\<close>

datatype api_call = GeminiPost jsstring jsstring jsstring | GroqPost jsstring jsstring jsstring

type_synonym network = "api_call \<Rightarrow> jsstring + jsstring"

text \<open>
  The adapters return the parsed response or the error they throw, and the calls they
  made.
\<close>

definition generateWithGemini ::
  "AIEngine \<Rightarrow> network \<Rightarrow> lowering \<Rightarrow> (jsstring \<Rightarrow> 'j option) \<Rightarrow> jsstring \<Rightarrow> ContextInfo
     \<Rightarrow> jsstring \<Rightarrow> (js_error + 'j parsed) \<times> api_call list" where
  "generateWithGemini eng post toLowerCase jsonParse userInput context mdl =
     (if \<not> truthy (geminiApiKey eng)
      then (Inl (Error (lit ''Gemini API key not configured'')), [])
      else (let call = GeminiPost mdl (the (geminiApiKey eng)) (buildPrompt userInput context)
            in case post call of
                 Inr responseText \<Rightarrow>
                   (Inr (parseAIResponse toLowerCase jsonParse responseText), [call])
               | Inl e \<Rightarrow> (Inl (Error (lit ''Gemini API error: '' @ e)), [call])))"

definition generateWithGroq ::
  "AIEngine \<Rightarrow> network \<Rightarrow> lowering \<Rightarrow> (jsstring \<Rightarrow> 'j option) \<Rightarrow> jsstring \<Rightarrow> ContextInfo
     \<Rightarrow> jsstring \<Rightarrow> (js_error + 'j parsed) \<times> api_call list" where
  "generateWithGroq eng post toLowerCase jsonParse userInput context mdl =
     (if \<not> truthy (groqApiKey eng)
      then (Inl (Error (lit ''Groq API key not configured'')), [])
      else (let call = GroqPost mdl (the (groqApiKey eng)) (buildPrompt userInput context)
            in case post call of
                 Inr responseText \<Rightarrow>
                   (Inr (parseAIResponse toLowerCase jsonParse responseText), [call])
               | Inl e \<Rightarrow> (Inl (Error (lit ''Groq API error: '' @ e)), [call])))"

text \<open>\<open>${error}\<close> for a thrown \<open>Error\<close>.\<close>

fun showError :: "js_error \<Rightarrow> jsstring" where
  "showError (Error msg) = lit ''Error: '' @ msg"

text \<open>
  \<open>generateCommand\<close>: the dispatch inside the \<open>try\<close>, then the handler, which turns every
  thrown error into a response. The function returns a response on every path.
\<close>

definition dispatch ::
  "AIEngine \<Rightarrow> network \<Rightarrow> lowering \<Rightarrow> (jsstring \<Rightarrow> 'j option) \<Rightarrow> jsstring \<Rightarrow> ContextInfo
     \<Rightarrow> jsstring \<Rightarrow> (js_error + 'j parsed) \<times> api_call list" where
  "dispatch eng post toLowerCase jsonParse userInput context modelChoice =
     (case modelInfoOf modelChoice of
        Some modelInfo \<Rightarrow>
          if provider modelInfo = lit ''gemini''
          then generateWithGemini eng post toLowerCase jsonParse userInput context (model modelInfo)
          else if provider modelInfo = lit ''groq''
          then generateWithGroq eng post toLowerCase jsonParse userInput context (model modelInfo)
          else (Inl (Error (lit ''Unknown provider: '' @ provider modelInfo)), [])
      | None \<Rightarrow> (Inl (Error (lit ''Unknown provider: undefined'')), []))"

definition generateCommand ::
  "AIEngine \<Rightarrow> network \<Rightarrow> lowering \<Rightarrow> (jsstring \<Rightarrow> 'j option) \<Rightarrow> jsstring \<Rightarrow> ContextInfo
     \<Rightarrow> jsstring \<Rightarrow> 'j parsed \<times> api_call list" where
  "generateCommand eng post toLowerCase jsonParse userInput context modelChoice =
     (case dispatch eng post toLowerCase jsonParse userInput context modelChoice of
        (Inr response, calls) \<Rightarrow> (response, calls)
      | (Inl e, calls) \<Rightarrow>
          (Extracted \<lparr>command = None,
                      explanation = lit ''Failed to generate command: '' @ showError e,
                      warning = Some (lit ''Please try again or use manual Git commands'')\<rparr>,
           calls))"

text \<open>For the examples: a network that answers every call with a fixed line.\<close>

definition echoNetwork :: network where
  "echoNetwork call = Inr (lit ''git status'')"

section \<open>Properties of strings\<close>

lemma startsWith_iff: "startsWith s p \<longleftrightarrow> (\<exists>t. s = p @ t)"
  by (induction s p rule: startsWith.induct) auto

lemma includes_str_iff: "includes_str s p \<longleftrightarrow> (\<exists>a b. s = a @ p @ b)"
proof (induction s)
  case Nil
  show ?case by (cases p) auto
next
  case (Cons c cs)
  show ?case
  proof
    assume "includes_str (c # cs) p"
    then consider "startsWith (c # cs) p" | "includes_str cs p" by auto
    then show "\<exists>a b. c # cs = a @ p @ b"
    proof cases
      case 1
      then obtain t where "c # cs = p @ t" by (auto simp: startsWith_iff)
      then have "c # cs = [] @ p @ t" by simp
      then show ?thesis by blast
    next
      case 2
      then obtain a b where "cs = a @ p @ b" using Cons.IH by auto
      then have "c # cs = (c # a) @ p @ b" by simp
      then show ?thesis by blast
    qed
  next
    assume "\<exists>a b. c # cs = a @ p @ b"
    then obtain a b where ab: "c # cs = a @ p @ b" by auto
    show "includes_str (c # cs) p"
    proof (cases a)
      case Nil
      with ab have "startsWith (c # cs) p" by (auto simp: startsWith_iff)
      then show ?thesis by simp
    next
      case (Cons x a')
      with ab have "cs = a' @ p @ b" by simp
      then have "includes_str cs p" using Cons.IH by blast
      then show ?thesis by simp
    qed
  qed
qed

lemma dropWhile_keeps_middle:
  assumes "p \<noteq> []" "\<not> P (hd p)"
  shows "\<exists>a'. dropWhile P (a @ p @ b) = a' @ p @ b"
proof (induction a)
  case Nil
  from assms have "dropWhile P (p @ b) = p @ b" by (cases p) auto
  then show ?case by (metis append_Nil)
next
  case (Cons x a)
  then show ?case by (cases "P x") (auto intro: exI[of _ "x # a"])
qed

lemma trimStart_keeps_middle:
  assumes "p \<noteq> []" "\<not> isWhiteSpace (hd p)"
  shows "\<exists>a'. trimStart (a @ p @ b) = a' @ p @ b"
  unfolding trimStart_def using assms dropWhile_keeps_middle[of p isWhiteSpace a b] by simp

lemma trimEnd_keeps_middle:
  assumes "p \<noteq> []" "\<not> isWhiteSpace (last p)"
  shows "\<exists>b'. trimEnd (a @ p @ b) = a @ p @ b'"
proof -
  have "rev p \<noteq> []" "\<not> isWhiteSpace (hd (rev p))" using assms by (simp_all add: hd_rev)
  with dropWhile_keeps_middle[of "rev p" isWhiteSpace "rev b" "rev a"]
  obtain r where "dropWhile isWhiteSpace (rev b @ rev p @ rev a) = r @ rev p @ rev a" by blast
  then have "trimEnd (a @ p @ b) = a @ p @ rev r" by (simp add: trimEnd_def)
  then show ?thesis by blast
qed

lemma includes_str_trim:
  assumes "includes_str c p" "p \<noteq> []" "\<not> isWhiteSpace (hd p)" "\<not> isWhiteSpace (last p)"
  shows "includes_str (trim c) p"
proof -
  from assms(1) obtain a b where "c = a @ p @ b" by (auto simp: includes_str_iff)
  moreover obtain a' where "trimStart (a @ p @ b) = a' @ p @ b"
    using trimStart_keeps_middle[OF assms(2,3)] by blast
  moreover obtain b' where "trimEnd (a' @ p @ b) = a' @ p @ b'"
    using trimEnd_keeps_middle[OF assms(2,4)] by blast
  ultimately have "trim c = a' @ p @ b'" by (simp add: trim_def)
  then show ?thesis by (auto simp: includes_str_iff)
qed

lemma trim_decomp: "\<exists>a b. s = a @ trim s @ b"
proof -
  have 1: "s = takeWhile isWhiteSpace s @ trimStart s" by (simp add: trimStart_def)
  have "rev (dropWhile isWhiteSpace (rev t)) @ rev (takeWhile isWhiteSpace (rev t)) = t" for t
    by (simp flip: rev_append)
  then have 2: "trimStart s = trim s @ rev (takeWhile isWhiteSpace (rev (trimStart s)))"
    by (simp add: trim_def trimEnd_def)
  from 1 2 show ?thesis by metis
qed

lemma includes_str_of_trim:
  assumes "includes_str (trim c) p" shows "includes_str c p"
proof -
  from assms obtain a b where ab: "trim c = a @ p @ b" by (auto simp: includes_str_iff)
  obtain u v where "c = u @ trim c @ v" using trim_decomp by blast
  with ab have "c = (u @ a) @ p @ (b @ v)" by simp
  then show ?thesis unfolding includes_str_iff by blast
qed

lemma scanDangerous_None: "scanDangerous c chars = None \<longleftrightarrow> (\<forall>ch \<in> set chars. \<not> includes_str c ch)"
  by (induction chars) auto

lemma scanDangerous_Some: "scanDangerous c chars = Some ch \<Longrightarrow> ch \<in> set chars \<and> includes_str c ch"
  by (induction chars) (auto split: if_splits)

lemma dangerous_shape:
  assumes "m \<in> set dangerousChars"
  shows "m \<noteq> [] \<and> \<not> isWhiteSpace (hd m) \<and> \<not> isWhiteSpace (last m)"
  using assms by (auto simp: dangerousChars_def lit_def isWhiteSpace_def)


section \<open>Properties of the executor\<close>

lemma pushWarnings_eq:
  "pushWarnings toLowerCase c tbl acc =
     acc @ map (\<lambda>(d, w). warnGlyph @ lit '' '' @ w)
             (filter (\<lambda>(d, w). includes_str (toLowerCase c) d) tbl)"
  by (induction tbl arbitrary: acc) auto

lemma cleanCommand_git:
  assumes "startsWith (trim c) (lit ''git'')"
  shows "cleanCommand c =
           (case scanDangerous (trim c) dangerousChars of
              Some ch \<Rightarrow> Inl (Error (lit ''Potentially dangerous character detected: '' @ ch))
            | None \<Rightarrow> Inr (trim c))"
  using assms by (simp add: cleanCommand_def Let_def)

text \<open>
  Claim C1, as the code has it. A command that includes one of the dangerous strings
  never spawns a subprocess, whatever \<open>dryRun\<close> is. When its trimmed form starts with
  \<open>git\<close>, \<open>execute\<close> throws the error of \<open>cleanCommand\<close>; when it does not, \<open>execute\<close>
  returns the "Invalid Git command" result as a value and throws nothing.
\<close>

theorem execute_metachar:
  assumes "m \<in> set dangerousChars" and "includes_str c m"
  shows "snd (execute toLowerCase execAsync repoPath c dryRun autoConfirm) = []
       \<and> (startsWith (trim c) (lit ''git'') \<longrightarrow>
            (\<exists>ch \<in> set dangerousChars.
               fst (execute toLowerCase execAsync repoPath c dryRun autoConfirm) =
                 Inl (Error (lit ''Potentially dangerous character detected: '' @ ch))))
       \<and> (\<not> startsWith (trim c) (lit ''git'') \<longrightarrow>
            fst (execute toLowerCase execAsync repoPath c dryRun autoConfirm) =
              Inr \<lparr>success = False, output' = Some [],
                   error = Some (lit ''Invalid Git command''), executed = False,
                   warnings = None, return_code = None\<rparr>)"
proof (cases "startsWith (trim c) (lit ''git'')")
  case False
  then show ?thesis by (simp add: execute_def)
next
  case True
  then have ne: "c \<noteq> []" by (auto simp: trim_def trimStart_def trimEnd_def lit_def)
  have "includes_str (trim c) m"
    using assms dangerous_shape[of m] by (simp add: includes_str_trim)
  with assms(1) have "scanDangerous (trim c) dangerousChars \<noteq> None"
    by (auto simp: scanDangerous_None)
  then obtain ch where ch: "scanDangerous (trim c) dangerousChars = Some ch" by auto
  then have "ch \<in> set dangerousChars" by (simp add: scanDangerous_Some)
  moreover have "execute toLowerCase execAsync repoPath c dryRun autoConfirm =
      (Inl (Error (lit ''Potentially dangerous character detected: '' @ ch)), [])"
    using True ne ch by (simp add: execute_def cleanCommand_git)
  ultimately show ?thesis using True by auto
qed

text \<open>The theorem at \<open>git status; rm -rf .\<close>: the injection error is thrown.\<close>

theorem execute_metachar_witness:
  "lit '';'' \<in> set dangerousChars
   \<and> includes_str (lit ''git status; rm -rf .'') (lit '';'')
   \<and> execute lowerLatin1 quietExec (lit ''/repo'') (lit ''git status; rm -rf .'') False False =
       (Inl (Error (lit ''Potentially dangerous character detected: ;'')), [])"
proof -
  have h1: "lit '';'' \<in> set dangerousChars" by (simp add: dangerousChars_def)
  have h2: "includes_str (lit ''git status; rm -rf .'') (lit '';'')" by code_simp
  have e: "execute lowerLatin1 quietExec (lit ''/repo'') (lit ''git status; rm -rf .'') False False =
       (Inl (Error (lit ''Potentially dangerous character detected: ;'')), [])" by code_simp
  from execute_metachar[OF h1 h2, of lowerLatin1 quietExec "lit ''/repo''" False False] h1 h2 e
  show ?thesis by simp
qed

text \<open>
  Claim C1 as stated fails at \<open>status; rm -rf .\<close>: the command includes \<open>;\<close>, and
  \<open>execute\<close> returns a result value instead of throwing.
\<close>

theorem execute_metachar_unprefixed:
  "includes_str (lit ''status; rm -rf .'') (lit '';'')
   \<and> execute lowerLatin1 quietExec (lit ''/repo'') (lit ''status; rm -rf .'') False False =
       (Inr \<lparr>success = False, output' = Some [],
             error = Some (lit ''Invalid Git command''), executed = False,
             warnings = None, return_code = None\<rparr>, [])"
  by code_simp

text \<open>
  Claim C2. Whatever function \<open>toLowerCase\<close> is, \<open>isDestructiveCommand\<close> holds exactly
  when the lowercase form of the command, which is \<open>toLowerCase c\<close>, includes one of the
  six substrings, and \<open>checkDestructiveOperations\<close> returns one warning for each row of
  the table whose substring matches that form, in the order of the table; the table has
  one row for each of the six substrings.
\<close>

theorem destructive_table:
  "isDestructiveCommand toLowerCase c =
     (includes_str (toLowerCase c) (lit ''reset --hard'')
      \<or> includes_str (toLowerCase c) (lit ''clean -f'')
      \<or> includes_str (toLowerCase c) (lit ''push --force'')
      \<or> includes_str (toLowerCase c) (lit ''rebase'')
      \<or> includes_str (toLowerCase c) (lit ''cherry-pick'')
      \<or> includes_str (toLowerCase c) (lit ''merge --no-ff''))
   \<and> checkDestructiveOperations toLowerCase c =
       map (\<lambda>(d, w). warnGlyph @ lit '' '' @ w)
         (filter (\<lambda>(d, w). includes_str (toLowerCase c) d) destructiveCommands)
   \<and> map fst destructiveCommands =
       [lit ''reset --hard'', lit ''clean -f'', lit ''push --force'', lit ''rebase'',
        lit ''cherry-pick'', lit ''merge --no-ff'']
   \<and> distinct (map fst destructiveCommands)"
proof -
  have "distinct (map fst destructiveCommands)"
    by (simp add: destructiveCommands_def lit_def)
  then show ?thesis
    by (simp add: isDestructiveCommand_def checkDestructiveOperations_def pushWarnings_eq
        destructiveCommands_def)
qed

text \<open>
  The theorem at an ASCII command matching the third and the fourth row, with the
  lower-casing of ASCII.
\<close>

theorem destructive_table_witness:
  "isDestructiveCommand lowerLatin1 (lit ''git Rebase main; git push --FORCE'')
   \<and> checkDestructiveOperations lowerLatin1 (lit ''git Rebase main; git push --FORCE'') =
       [warnGlyph @ lit '' This will overwrite remote history'',
        warnGlyph @ lit '' This will rewrite commit history'']"
proof -
  have "map (\<lambda>(d, w). warnGlyph @ lit '' '' @ w)
         (filter (\<lambda>(d, w). includes_str (lowerLatin1 (lit ''git Rebase main; git push --FORCE'')) d)
            destructiveCommands) =
       [warnGlyph @ lit '' This will overwrite remote history'',
        warnGlyph @ lit '' This will rewrite commit history'']" by code_simp
  moreover have "includes_str (lowerLatin1 (lit ''git Rebase main; git push --FORCE'')) (lit ''rebase'')"
    by code_simp
  ultimately show ?thesis
    using destructive_table[of lowerLatin1 "lit ''git Rebase main; git push --FORCE''"] by simp
qed


lemma execute_dryRun_cases:
  "snd (execute toLowerCase execAsync repoPath c True autoConfirm) = []
   \<and> (\<forall>r. fst (execute toLowerCase execAsync repoPath c True autoConfirm) = Inr r \<longrightarrow> \<not> executed r)"
  by (auto simp: execute_def Let_def split: sum.splits)

text \<open>
  Claim C3. For a command whose trimmed form starts with \<open>git\<close> and that includes no
  dangerous string, a dry run returns success with \<open>executed = False\<close> and the output
  "Would execute: " followed by the normalized command (the trimmed command), and spawns
  nothing. For every command, a dry run spawns nothing and every result it returns has
  \<open>executed = False\<close>.
\<close>

theorem execute_dryRun:
  "(startsWith (trim c) (lit ''git'') \<and> (\<forall>m \<in> set dangerousChars. \<not> includes_str c m) \<longrightarrow>
      cleanCommand c = Inr (trim c)
      \<and> execute toLowerCase execAsync repoPath c True autoConfirm =
          (Inr \<lparr>success = True, output' = Some (lit ''Would execute: '' @ trim c),
                error = Some [], executed = False,
                warnings = Some (checkDestructiveOperations toLowerCase (trim c)),
                return_code = None\<rparr>, []))
   \<and> snd (execute toLowerCase execAsync repoPath c True autoConfirm) = []
   \<and> (\<forall>r. fst (execute toLowerCase execAsync repoPath c True autoConfirm) = Inr r \<longrightarrow> \<not> executed r)"
proof -
  have "cleanCommand c = Inr (trim c)
      \<and> execute toLowerCase execAsync repoPath c True autoConfirm =
          (Inr \<lparr>success = True, output' = Some (lit ''Would execute: '' @ trim c),
                error = Some [], executed = False,
                warnings = Some (checkDestructiveOperations toLowerCase (trim c)),
                return_code = None\<rparr>, [])"
    if git: "startsWith (trim c) (lit ''git'')"
      and clean: "\<forall>m \<in> set dangerousChars. \<not> includes_str c m"
  proof -
    from git have ne: "c \<noteq> []" by (auto simp: trim_def trimStart_def trimEnd_def lit_def)
    from clean have "\<forall>m \<in> set dangerousChars. \<not> includes_str (trim c) m"
      using includes_str_of_trim by blast
    then have "scanDangerous (trim c) dangerousChars = None" by (simp add: scanDangerous_None)
    with git have cc: "cleanCommand c = Inr (trim c)" by (simp add: cleanCommand_git)
    with git ne show ?thesis by (simp add: execute_def)
  qed
  with execute_dryRun_cases[of toLowerCase execAsync repoPath c autoConfirm] show ?thesis by blast
qed

text \<open>The theorem at \<open>git reset --hard HEAD\<close> with blanks around it.\<close>

theorem execute_dryRun_witness:
  "startsWith (trim (lit '' git reset --hard HEAD '')) (lit ''git'')
   \<and> list_all (\<lambda>m. \<not> includes_str (lit '' git reset --hard HEAD '') m) dangerousChars
   \<and> execute lowerLatin1 quietExec (lit ''/repo'') (lit '' git reset --hard HEAD '') True False =
       (Inr \<lparr>success = True, output' = Some (lit ''Would execute: git reset --hard HEAD''),
             error = Some [], executed = False,
             warnings = Some [warnGlyph @ lit '' This will discard all uncommitted changes''],
             return_code = None\<rparr>, [])"
proof -
  have h1: "startsWith (trim (lit '' git reset --hard HEAD '')) (lit ''git'')" by code_simp
  have h2: "list_all (\<lambda>m. \<not> includes_str (lit '' git reset --hard HEAD '') m) dangerousChars"
    by code_simp
  have t: "trim (lit '' git reset --hard HEAD '') = lit ''git reset --hard HEAD''" by code_simp
  have w: "checkDestructiveOperations lowerLatin1 (lit ''git reset --hard HEAD'') =
             [warnGlyph @ lit '' This will discard all uncommitted changes'']" by code_simp
  have a: "lit ''Would execute: '' @ lit ''git reset --hard HEAD'' =
             lit ''Would execute: git reset --hard HEAD''" by (simp add: lit_def)
  from h2 have h2': "\<forall>m \<in> set dangerousChars. \<not> includes_str (lit '' git reset --hard HEAD '') m"
    by (simp add: list_all_iff)
  from execute_dryRun[of "lit '' git reset --hard HEAD ''" lowerLatin1 quietExec "lit ''/repo''" False] h1 h2'
  have "execute lowerLatin1 quietExec (lit ''/repo'') (lit '' git reset --hard HEAD '') True False =
          (Inr \<lparr>success = True,
                output' = Some (lit ''Would execute: '' @ trim (lit '' git reset --hard HEAD '')),
                error = Some [], executed = False,
                warnings = Some (checkDestructiveOperations lowerLatin1 (trim (lit '' git reset --hard HEAD ''))),
                return_code = None\<rparr>, [])" by blast
  with h1 h2 show ?thesis by (simp only: t w a simp_thms)
qed

text \<open>
  Claim C4, as the code has it. \<open>execute\<close> rejects every command whose trimmed form does
  not start with \<open>git\<close>, with the "Invalid Git command" result and no subprocess. The
  prefixing is done by \<open>cleanCommand\<close> alone: it puts \<open>git\<close> and a blank before such a
  trimmed command, and adds nothing to a command that starts with \<open>git\<close>, which are the
  only commands \<open>execute\<close> passes to it.
\<close>

theorem execute_rejects_unprefixed:
  "(\<not> startsWith (trim c) (lit ''git'') \<longrightarrow>
      execute toLowerCase execAsync repoPath c dryRun autoConfirm =
        (Inr \<lparr>success = False, output' = Some [],
              error = Some (lit ''Invalid Git command''), executed = False,
              warnings = None, return_code = None\<rparr>, []))
   \<and> (\<not> startsWith (trim c) (lit ''git'')
        \<and> (\<forall>m \<in> set dangerousChars. \<not> includes_str (lit ''git '' @ trim c) m) \<longrightarrow>
      cleanCommand c = Inr (lit ''git '' @ trim c))
   \<and> (startsWith (trim c) (lit ''git'')
        \<and> (\<forall>m \<in> set dangerousChars. \<not> includes_str (trim c) m) \<longrightarrow>
      cleanCommand c = Inr (trim c))"
  by (simp add: execute_def cleanCommand_def Let_def scanDangerous_None[symmetric])

text \<open>The theorem at \<open>status\<close> and at \<open>git status\<close>.\<close>

theorem execute_rejects_unprefixed_witness:
  "\<not> startsWith (trim (lit ''status'')) (lit ''git'')
   \<and> execute lowerLatin1 quietExec (lit ''/repo'') (lit ''status'') False False =
        (Inr \<lparr>success = False, output' = Some [],
              error = Some (lit ''Invalid Git command''), executed = False,
              warnings = None, return_code = None\<rparr>, [])
   \<and> cleanCommand (lit ''status'') = Inr (lit ''git status'')
   \<and> cleanCommand (lit ''git status'') = Inr (lit ''git status'')"
proof -
  have h1: "\<not> startsWith (trim (lit ''status'')) (lit ''git'')" by code_simp
  have h2: "\<forall>m \<in> set dangerousChars. \<not> includes_str (lit ''git '' @ trim (lit ''status'')) m"
    unfolding list_all_iff[symmetric] by code_simp
  have h3: "startsWith (trim (lit ''git status'')) (lit ''git'')" by code_simp
  have h4: "\<forall>m \<in> set dangerousChars. \<not> includes_str (trim (lit ''git status'')) m"
    unfolding list_all_iff[symmetric] by code_simp
  have t1: "lit ''git '' @ trim (lit ''status'') = lit ''git status''" by code_simp
  have t2: "trim (lit ''git status'') = lit ''git status''" by code_simp
  from execute_rejects_unprefixed[of "lit ''status''" lowerLatin1 quietExec "lit ''/repo''" False False] h1 h2
  have a: "execute lowerLatin1 quietExec (lit ''/repo'') (lit ''status'') False False =
        (Inr \<lparr>success = False, output' = Some [],
              error = Some (lit ''Invalid Git command''), executed = False,
              warnings = None, return_code = None\<rparr>, [])"
    and b: "cleanCommand (lit ''status'') = Inr (lit ''git '' @ trim (lit ''status''))"
    by blast+
  from execute_rejects_unprefixed[of "lit ''git status''" lowerLatin1 quietExec "lit ''/repo''" False False] h3 h4
  have c: "cleanCommand (lit ''git status'') = Inr (trim (lit ''git status''))" by blast
  from h1 a b c show ?thesis by (simp only: t1 t2 simp_thms)
qed

text \<open>
  Claim C4 as stated fails: \<open>execute\<close> rejects \<open>status\<close> and runs \<open>git status\<close>.
\<close>

theorem execute_status_differs:
  "execute lowerLatin1 quietExec (lit ''/repo'') (lit ''status'') False False =
     (Inr \<lparr>success = False, output' = Some [],
           error = Some (lit ''Invalid Git command''), executed = False,
           warnings = None, return_code = None\<rparr>, [])
   \<and> execute lowerLatin1 quietExec (lit ''/repo'') (lit ''git status'') False False =
     (Inr \<lparr>success = True, output' = Some [], error = Some [], executed = True,
           warnings = Some [], return_code = Some (CodeNum 0)\<rparr>,
      [(lit ''git status'', lit ''/repo'')])"
  by code_simp

text \<open>
  Claim C10. The result of \<open>execute\<close> and the subprocesses it spawns are the same for
  both values of \<open>autoConfirm\<close>.
\<close>

theorem execute_ignores_autoConfirm:
  "execute toLowerCase execAsync repoPath c dryRun True = execute toLowerCase execAsync repoPath c dryRun False"
  by (simp add: execute_def)

text \<open>The theorem at a destructive command, run with \<open>autoConfirm = True\<close>.\<close>

theorem execute_ignores_autoConfirm_witness:
  "execute lowerLatin1 quietExec (lit ''/repo'') (lit ''git push --force'') False True =
     (Inr \<lparr>success = True, output' = Some [], error = Some [], executed = True,
           warnings = Some [warnGlyph @ lit '' This will overwrite remote history''],
           return_code = Some (CodeNum 0)\<rparr>,
      [(lit ''git push --force'', lit ''/repo'')])"
proof -
  have "execute lowerLatin1 quietExec (lit ''/repo'') (lit ''git push --force'') False False =
     (Inr \<lparr>success = True, output' = Some [], error = Some [], executed = True,
           warnings = Some [warnGlyph @ lit '' This will overwrite remote history''],
           return_code = Some (CodeNum 0)\<rparr>,
      [(lit ''git push --force'', lit ''/repo'')])" by code_simp
  with execute_ignores_autoConfirm[of lowerLatin1 quietExec "lit ''/repo''" "lit ''git push --force''" False]
  show ?thesis by simp
qed

section \<open>Properties of the context analyzer\<close>






text \<open>
  Claim C7 against the code. With one staged file the output of the query has one
  non-empty line and the snapshot reports 0 staged files: the count is the number of
  lines of the trimmed output minus one, which is 0 for the empty output and one too few
  for an output that lists one file on each line.
\<close>

theorem lineCount_one_staged_file:
  "execSync stagedHost (lit ''git diff --cached --name-only'') (lit ''/repo'') =
     Inr (lit ''a.txt'' @ [LF])
   \<and> nonEmptyLines (lit ''a.txt'' @ [LF]) = 1
   \<and> staged_files (analyzeContext stagedHost (lit ''/repo'')) = Some 0
   \<and> lineCount [] = 0"
  by code_simp

text \<open>
  The count that the snapshot reports is the number of line feeds in the trimmed output:
  one less than the number of its lines.
\<close>

lemma length_split_on: "length (split_on sep s) = count_list s sep + 1"
proof (induction s)
  case Nil
  show ?case by simp
next
  case (Cons c cs)
  then have "split_on sep cs \<noteq> []" by auto
  with Cons show ?case by (auto split: list.splits)
qed

theorem lineCount_counts_line_feeds: "lineCount out = int (count_list (trim out) LF)"
  by (simp add: lineCount_def length_split_on)

section \<open>Properties of the engine\<close>

lemma isWarningLine_nonempty: "isWarningLine t \<Longrightarrow> t \<noteq> []"
  by (auto simp: isWarningLine_def lit_def warnGlyph_def)

lemma scanLine_warning_set:
  "isWarningLine (trim l) \<Longrightarrow> warning (scanLine toLowerCase st l) = Some (trim l)"
  by (simp add: scanLine_def Let_def)

lemma scanLine_warning_kept:
  "\<not> isWarningLine (trim x) \<Longrightarrow> truthy (warning st) \<Longrightarrow> warning (scanLine toLowerCase st x) = warning st"
  by (simp add: scanLine_def Let_def)

lemma foldl_scanLine_warning_kept:
  "\<forall>x \<in> set post. \<not> isWarningLine (trim x) \<Longrightarrow> truthy (warning st)
     \<Longrightarrow> warning (foldl (scanLine toLowerCase) st post) = warning st"
proof (induction post arbitrary: st)
  case Nil
  show ?case by simp
next
  case (Cons x post)
  then have "warning (scanLine toLowerCase st x) = warning st" by (simp add: scanLine_warning_kept)
  with Cons show ?case by simp
qed

text \<open>
  Claim C9, as the code has it. Among the lines of the response that start with
  \<open>Warning:\<close> or \<open>Note:\<close> or include the warning glyph, the last one becomes the warning
  of the text fallback: each such line replaces the warning set before it, and no later
  line of another kind replaces it.
\<close>

theorem textFallback_last_warning_line:
  assumes "split_on LF response = pre @ [l] @ post"
    and "isWarningLine (trim l)"
    and "\<forall>x \<in> set post. \<not> isWarningLine (trim x)"
  shows "warning (textFallback toLowerCase response) = Some (trim l)"
proof -
  let ?st = "scanLine toLowerCase (foldl (scanLine toLowerCase) \<lparr>command = None, explanation = [], warning = None\<rparr> pre) l"
  have w: "warning ?st = Some (trim l)" using assms(2) by (rule scanLine_warning_set)
  then have "truthy (warning ?st)" using assms(2) by (simp add: isWarningLine_nonempty)
  with assms(3) have "warning (foldl (scanLine toLowerCase) ?st post) = warning ?st"
    by (rule foldl_scanLine_warning_kept)
  with w have "warning (scanLines toLowerCase (pre @ [l] @ post)) = Some (trim l)"
    by (simp add: scanLines_def)
  with assms(1) show ?thesis by (simp add: textFallback_def Let_def)
qed

text \<open>
  The theorem at a response of three lines: two marked lines, then a line that only
  mentions a warning.
\<close>

theorem textFallback_last_warning_line_witness:
  "split_on LF (lit ''Warning: first'' @ [LF] @ lit ''Note: second '' @ [LF] @ lit ''a warning'') =
     [lit ''Warning: first''] @ [lit ''Note: second ''] @ [lit ''a warning'']
   \<and> isWarningLine (trim (lit ''Note: second ''))
   \<and> list_all (\<lambda>x. \<not> isWarningLine (trim x)) [lit ''a warning'']
   \<and> warning (textFallback lowerLatin1 (lit ''Warning: first'' @ [LF] @ lit ''Note: second '' @ [LF] @ lit ''a warning''))
       = Some (lit ''Note: second'')"
proof -
  have h1: "split_on LF (lit ''Warning: first'' @ [LF] @ lit ''Note: second '' @ [LF] @ lit ''a warning'') =
     [lit ''Warning: first''] @ [lit ''Note: second ''] @ [lit ''a warning'']" by code_simp
  have h2: "isWarningLine (trim (lit ''Note: second ''))" by code_simp
  have h3: "list_all (\<lambda>x. \<not> isWarningLine (trim x)) [lit ''a warning'']" by code_simp
  have t: "trim (lit ''Note: second '') = lit ''Note: second''" by code_simp
  from h3 have h3': "\<forall>x \<in> set [lit ''a warning'']. \<not> isWarningLine (trim x)"
    by (simp only: list_all_iff)
  from textFallback_last_warning_line[OF h1 h2 h3'] h1 h2 h3 show ?thesis
    by (simp only: t simp_thms)
qed

text \<open>
  Claim C9 as stated fails: of two lines starting with \<open>Warning:\<close>, the second is the
  warning returned.
\<close>

theorem parseAIResponse_second_warning_wins:
  "parseAIResponse lowerLatin1 rejectJson (lit ''Warning: first'' @ [LF] @ lit ''Warning: second'') =
     Extracted \<lparr>command = None, explanation = [], warning = Some (lit ''Warning: second'')\<rparr>"
  by code_simp

lemma scanLine_warning_shape:
  assumes "warning st = None \<or> (\<exists>t. warning st = Some t \<and>
             (isWarningLine t \<or> includes_str (toLowerCase t) (lit ''warning'')))"
  shows "warning (scanLine toLowerCase st l) = None \<or> (\<exists>t. warning (scanLine toLowerCase st l) = Some t \<and>
             (isWarningLine t \<or> includes_str (toLowerCase t) (lit ''warning'')))"
  using assms by (auto simp: scanLine_def Let_def)

lemma foldl_scanLine_warning_shape:
  assumes "warning st = None \<or> (\<exists>t. warning st = Some t \<and>
             (isWarningLine t \<or> includes_str (toLowerCase t) (lit ''warning'')))"
  shows "warning (foldl (scanLine toLowerCase) st ls) = None \<or> (\<exists>t. warning (foldl (scanLine toLowerCase) st ls) = Some t \<and>
             (isWarningLine t \<or> includes_str (toLowerCase t) (lit ''warning'')))"
  using assms
proof (induction ls arbitrary: st)
  case Nil
  then show ?case by simp
next
  case (Cons l ls)
  from Cons.IH[OF scanLine_warning_shape[OF Cons.prems]] show ?case by simp
qed

lemma failed_message_unmarked: "\<not> isWarningLine (lit ''Failed to parse AI response'')"
  by code_simp

lemma scanLines_never_failed_message:
  assumes "\<not> includes_str (toLowerCase (lit ''Failed to parse AI response'')) (lit ''warning'')"
  shows "warning (scanLines toLowerCase ls) \<noteq> Some (lit ''Failed to parse AI response'')"
proof -
  have "warning (scanLines toLowerCase ls) = None \<or> (\<exists>t. warning (scanLines toLowerCase ls) = Some t \<and>
             (isWarningLine t \<or> includes_str (toLowerCase t) (lit ''warning'')))"
    unfolding scanLines_def by (rule foldl_scanLine_warning_shape) simp
  with failed_message_unmarked assms show ?thesis by auto
qed

lemma scanLine_no_warning:
  "warning st = None \<Longrightarrow> \<not> isWarningLine (trim l)
     \<Longrightarrow> \<not> includes_str (toLowerCase (trim l)) (lit ''warning'')
     \<Longrightarrow> warning (scanLine toLowerCase st l) = None"
  by (simp add: scanLine_def Let_def)

lemma foldl_scanLine_no_warning:
  "warning st = None
     \<Longrightarrow> \<forall>x \<in> set ls. \<not> isWarningLine (trim x) \<and> \<not> includes_str (toLowerCase (trim x)) (lit ''warning'')
     \<Longrightarrow> warning (foldl (scanLine toLowerCase) st ls) = None"
proof (induction ls arbitrary: st)
  case Nil
  then show ?case by simp
next
  case (Cons l ls)
  then have "warning (scanLine toLowerCase st l) = None" by (simp add: scanLine_no_warning)
  with Cons show ?case by simp
qed

lemma textFallback_command_None:
  "command (textFallback toLowerCase response) = None \<Longrightarrow> textFallback toLowerCase response =
     \<lparr>command = None, explanation = trim (explanation (scanLines toLowerCase (split_on LF response))),
      warning = warning (scanLines toLowerCase (split_on LF response))\<rparr>"
  by (simp add: textFallback_def Let_def split: if_splits)

text \<open>
  Claim C5, as the code has it. When neither \<open>JSON.parse\<close> attempt gives a value and the
  line scan finds no command, \<open>parseAIResponse\<close> returns the result of the line scan: no
  command, the trimmed explanation that the scan accumulated, and the warning of the
  scan. That warning is never "Failed to parse AI response", and it is null when no line
  is a warning line or holds the word "warning". The last hypothesis is a fact of the
  runtime: the lower-case form of that message, "failed to parse ai response", does not
  include "warning".
\<close>

theorem parseAIResponse_all_paths_fail:
  assumes "\<forall>m. jsonMatch response = Some m \<longrightarrow> jsonParse m = None"
    and "startsWith (trim response) [openBrace] \<longrightarrow> jsonParse (trim response) = None"
    and "command (textFallback toLowerCase response) = None"
    and "\<not> includes_str (toLowerCase (lit ''Failed to parse AI response'')) (lit ''warning'')"
  shows "parseAIResponse toLowerCase jsonParse response =
           Extracted \<lparr>command = None,
                      explanation = trim (explanation (scanLines toLowerCase (split_on LF response))),
                      warning = warning (scanLines toLowerCase (split_on LF response))\<rparr>
         \<and> warning (scanLines toLowerCase (split_on LF response)) \<noteq> Some (lit ''Failed to parse AI response'')
         \<and> ((\<forall>x \<in> set (split_on LF response).
                \<not> isWarningLine (trim x) \<and> \<not> includes_str (toLowerCase (trim x)) (lit ''warning''))
              \<longrightarrow> warning (scanLines toLowerCase (split_on LF response)) = None)"
proof -
  from assms(1) have 1: "(case jsonMatch response of Some m \<Rightarrow> jsonParse m | None \<Rightarrow> None) = None"
    by (simp split: option.splits)
  from assms(2) have 2: "(if startsWith (trim response) [openBrace]
                           then jsonParse (trim response) else None) = None" by simp
  have "parseAIResponse toLowerCase jsonParse response = Extracted (textFallback toLowerCase response)"
    by (simp add: parseAIResponse_def parseBody_def 1 2)
  with textFallback_command_None[OF assms(3)] have a: "parseAIResponse toLowerCase jsonParse response =
           Extracted \<lparr>command = None,
                      explanation = trim (explanation (scanLines toLowerCase (split_on LF response))),
                      warning = warning (scanLines toLowerCase (split_on LF response))\<rparr>" by simp
  have c: "warning (scanLines toLowerCase (split_on LF response)) = None"
    if "\<forall>x \<in> set (split_on LF response).
                \<not> isWarningLine (trim x) \<and> \<not> includes_str (toLowerCase (trim x)) (lit ''warning'')"
    unfolding scanLines_def using that by (intro foldl_scanLine_no_warning) simp_all
  from a assms(4)
    scanLines_never_failed_message[where toLowerCase = toLowerCase and ls = "split_on LF response"]
    c
  show ?thesis by blast
qed

text \<open>The theorem at a response of two plain lines.\<close>

theorem parseAIResponse_all_paths_fail_witness:
  "jsonMatch (lit ''hello '' @ [LF] @ lit ''world'') = None
   \<and> \<not> startsWith (trim (lit ''hello '' @ [LF] @ lit ''world'')) [openBrace]
   \<and> command (textFallback lowerLatin1 (lit ''hello '' @ [LF] @ lit ''world'')) = None
   \<and> \<not> includes_str (lowerLatin1 (lit ''Failed to parse AI response'')) (lit ''warning'')
   \<and> parseAIResponse lowerLatin1 rejectJson (lit ''hello '' @ [LF] @ lit ''world'') =
       Extracted \<lparr>command = None, explanation = lit ''hello world'', warning = None\<rparr>"
proof -
  have h4: "\<not> includes_str (lowerLatin1 (lit ''Failed to parse AI response'')) (lit ''warning'')"
    by code_simp
  have h1: "jsonMatch (lit ''hello '' @ [LF] @ lit ''world'') = None" by code_simp
  have h2: "\<not> startsWith (trim (lit ''hello '' @ [LF] @ lit ''world'')) [openBrace]" by code_simp
  have h3: "command (textFallback lowerLatin1 (lit ''hello '' @ [LF] @ lit ''world'')) = None" by code_simp
  have e: "trim (explanation (scanLines lowerLatin1 (split_on LF (lit ''hello '' @ [LF] @ lit ''world'')))) =
             lit ''hello world''" by code_simp
  have w: "warning (scanLines lowerLatin1 (split_on LF (lit ''hello '' @ [LF] @ lit ''world''))) = None"
    by code_simp
  from parseAIResponse_all_paths_fail[where response = "lit ''hello '' @ [LF] @ lit ''world''"
      and jsonParse = rejectJson and toLowerCase = lowerLatin1] h1 h2 h3 h4
  have "parseAIResponse lowerLatin1 rejectJson (lit ''hello '' @ [LF] @ lit ''world'') =
           Extracted \<lparr>command = None,
                      explanation = trim (explanation (scanLines lowerLatin1 (split_on LF (lit ''hello '' @ [LF] @ lit ''world'')))),
                      warning = warning (scanLines lowerLatin1 (split_on LF (lit ''hello '' @ [LF] @ lit ''world'')))\<rparr>"
    by simp
  with h1 h2 h3 h4 show ?thesis by (simp only: e w simp_thms)
qed

text \<open>
  Claim C5 as stated fails at a response of two plain lines with blanks around the
  first: the explanation returned is the lines trimmed and joined by a blank, not the
  text as it came, and the warning is null.
\<close>

theorem parseAIResponse_gibberish:
  "jsonMatch (lit '' hello '' @ [LF] @ lit ''world'') = None
   \<and> \<not> startsWith (trim (lit '' hello '' @ [LF] @ lit ''world'')) [openBrace]
   \<and> parseAIResponse lowerLatin1 rejectJson (lit '' hello '' @ [LF] @ lit ''world'') =
       Extracted \<lparr>command = None, explanation = lit ''hello world'', warning = None\<rparr>"
  by code_simp

text \<open>
  Claim C8. When the API key of the provider that the model choice resolves to is
  missing or empty, \<open>generateCommand\<close> makes no network call and returns a response with
  no command, whose explanation starts with "Failed to generate command: Error: ". The
  same holds when the choice resolves to no provider at all. \<open>generateCommand\<close> returns a
  response for every input: its handler converts each thrown error.
\<close>

theorem generateCommand_no_key:
  assumes "\<forall>mi. modelInfoOf modelChoice = Some mi \<longrightarrow>
             (provider mi = lit ''gemini'' \<longrightarrow> \<not> truthy (geminiApiKey eng))
             \<and> (provider mi = lit ''groq'' \<longrightarrow> \<not> truthy (groqApiKey eng))"
  shows "snd (generateCommand eng post toLowerCase jsonParse userInput context modelChoice) = []
       \<and> (\<exists>detail. fst (generateCommand eng post toLowerCase jsonParse userInput context modelChoice) =
            Extracted \<lparr>command = None,
                       explanation = lit ''Failed to generate command: '' @ lit ''Error: '' @ detail,
                       warning = Some (lit ''Please try again or use manual Git commands'')\<rparr>)"
proof (cases "modelInfoOf modelChoice")
  case None
  then show ?thesis by (simp add: generateCommand_def dispatch_def)
next
  case (Some mi)
  with assms have k: "provider mi = lit ''gemini'' \<longrightarrow> \<not> truthy (geminiApiKey eng)"
    "provider mi = lit ''groq'' \<longrightarrow> \<not> truthy (groqApiKey eng)" by auto
  show ?thesis
  proof (cases "provider mi = lit ''gemini''")
    case True
    with Some k show ?thesis
      by (simp add: generateCommand_def dispatch_def generateWithGemini_def)
  next
    case False
    note ng = this
    show ?thesis
    proof (cases "provider mi = lit ''groq''")
      case True
      with Some k ng show ?thesis
        by (simp add: generateCommand_def dispatch_def generateWithGroq_def)
    next
      case False
      with Some ng show ?thesis by (simp add: generateCommand_def dispatch_def)
    qed
  qed
qed

text \<open>The theorem at the first model with an empty Gemini key.\<close>

theorem generateCommand_no_key_witness:
  "modelInfoOf (lit ''1'') =
     Some \<lparr>name = lit ''Gemini 2.0 Flash'', provider = lit ''gemini'', model = lit ''gemini-2.0-flash''\<rparr>
   \<and> \<not> truthy (geminiApiKey \<lparr>geminiApiKey = Some [], groqApiKey = Some (lit ''key'')\<rparr>)
   \<and> generateCommand \<lparr>geminiApiKey = Some [], groqApiKey = Some (lit ''key'')\<rparr> echoNetwork lowerLatin1 rejectJson
        (lit ''show the status'') (errorOnly (lit ''Not a Git repository'')) (lit ''1'') =
       (Extracted \<lparr>command = None,
                   explanation = lit ''Failed to generate command: Error: Gemini API key not configured'',
                   warning = Some (lit ''Please try again or use manual Git commands'')\<rparr>, [])"
proof -
  let ?eng = "\<lparr>geminiApiKey = Some [], groqApiKey = Some (lit ''key'')\<rparr>"
  have m: "modelInfoOf (lit ''1'') =
     Some \<lparr>name = lit ''Gemini 2.0 Flash'', provider = lit ''gemini'', model = lit ''gemini-2.0-flash''\<rparr>"
    by code_simp
  have k: "\<not> truthy (geminiApiKey ?eng)" by simp
  have ng: "lit ''gemini'' \<noteq> lit ''groq''" by (simp add: lit_def)
  have h: "\<forall>mi. modelInfoOf (lit ''1'') = Some mi \<longrightarrow>
             (provider mi = lit ''gemini'' \<longrightarrow> \<not> truthy (geminiApiKey ?eng))
             \<and> (provider mi = lit ''groq'' \<longrightarrow> \<not> truthy (groqApiKey ?eng))"
    using m ng by auto
  have e: "fst (generateCommand ?eng echoNetwork lowerLatin1 rejectJson
        (lit ''show the status'') (errorOnly (lit ''Not a Git repository'')) (lit ''1'')) =
       Extracted \<lparr>command = None,
                   explanation = lit ''Failed to generate command: Error: Gemini API key not configured'',
                   warning = Some (lit ''Please try again or use manual Git commands'')\<rparr>"
    by code_simp
  from generateCommand_no_key[OF h, of echoNetwork lowerLatin1 rejectJson "lit ''show the status''"
      "errorOnly (lit ''Not a Git repository'')"]
  have "snd (generateCommand ?eng echoNetwork lowerLatin1 rejectJson
        (lit ''show the status'') (errorOnly (lit ''Not a Git repository'')) (lit ''1'')) = []"
    by blast
  with e m k show ?thesis by (simp add: prod_eq_iff)
qed

text \<open>
  For every response and every \<open>JSON.parse\<close>, \<open>parseAIResponse\<close> returns a parsed JSON
  value or the result of the text fallback, whose warning is not "Failed to parse AI
  response" (the lower-case form of that message not including "warning"): the result of
  the outer handler is returned for no string.
\<close>

theorem parseAIResponse_never_failure_shape:
  assumes "\<not> includes_str (toLowerCase (lit ''Failed to parse AI response'')) (lit ''warning'')"
  shows "(\<exists>v. parseAIResponse toLowerCase jsonParse response = Json v)
   \<or> (parseAIResponse toLowerCase jsonParse response = Extracted (textFallback toLowerCase response)
       \<and> warning (textFallback toLowerCase response) \<noteq> Some (lit ''Failed to parse AI response''))"
proof -
  have "warning (textFallback toLowerCase response) \<noteq> Some (lit ''Failed to parse AI response'')"
    using assms
      scanLines_never_failed_message[where toLowerCase = toLowerCase and ls = "split_on LF response"]
    by (simp add: textFallback_def Let_def)
  then show ?thesis
    by (auto simp: parseAIResponse_def parseBody_def split: option.splits)
qed

end
